theory Spec2Isabelle
  imports Complex_Main
begin

section \<open>BeepMetronome: the cadence parameters and the thread control\<close>

text \<open>
  The object state of \<^verbatim>\<open>BeepMetronome\<close> (section_practice.py, lines 167 to 202). The fields \<open>bpm\<close> and
  \<open>beats_per_bar\<close> are the attributes of the same name; \<open>stop_set\<close> is the state of the
  event \<^verbatim>\<open>_stop\<close>; \<open>thread_alive\<close> is the value of
  \<^verbatim>\<open>self._thread is not None and self._thread.is_alive()\<close>.
\<close>

record metronome =
  bpm :: int
  beats_per_bar :: int
  stop_set :: bool
  thread_alive :: bool

definition init_metronome :: metronome where
  "init_metronome = \<lparr>bpm = 120, beats_per_bar = 4, stop_set = False, thread_alive = False\<rparr>"

definition update :: "metronome \<Rightarrow> int \<Rightarrow> int \<Rightarrow> metronome" where
  "update m b bb = m\<lparr>bpm := max 1 (min 400 b), beats_per_bar := max 1 (min 32 bb)\<rparr>"

definition is_running :: "metronome \<Rightarrow> bool" where
  "is_running m = thread_alive m"

definition start :: "metronome \<Rightarrow> int \<Rightarrow> int \<Rightarrow> metronome" where
  "start m b bb =
     (let m1 = update m b bb in
      if is_running m1 then m1
      else m1\<lparr>stop_set := False, thread_alive := True\<rparr>)"

definition stop :: "metronome \<Rightarrow> metronome" where
  "stop m = m\<lparr>stop_set := True\<rparr>"

section \<open>PracticeTracker: the session state and its operations\<close>

text \<open>
  One row of \<^verbatim>\<open>sessions.csv\<close> as the dataclass \<^verbatim>\<open>SessionRow\<close> holds it. Wall-clock
  stamps (\<^verbatim>\<open>now_iso()\<close>) are counted in seconds from \<^verbatim>\<open>datetime.min\<close>, which keeps their
  order; \<^verbatim>\<open>time.time()\<close> readings and durations are rationals. The dataclass does not
  check its field types, so the session id and the start stamp are stored as they are in
  the tracker, \<^verbatim>\<open>None\<close> included.
\<close>

record SessionRow =
  sr_session_id :: "string option"
  sr_timestamp_start :: "nat option"
  sr_timestamp_end :: nat
  sr_duration_sec :: rat
  sr_song_index :: int
  sr_song_name :: string
  sr_bar_start :: int
  sr_bar_end :: int
  sr_bpm :: int
  sr_reps :: int
  sr_success :: int
  sr_note :: string

text \<open>
  The attributes of \<^verbatim>\<open>PracticeTracker\<close> that the session operations (lines 891 to 1064)
  read or write.
  \<open>None\<close> is Python's \<^verbatim>\<open>None\<close>. \<open>sessions_csv\<close> is the content of the file
  \<^verbatim>\<open>sessions.csv\<close>: the rows below its header, oldest first. \<open>note_var\<close> is the text of
  the note entry.
\<close>

record tracker =
  active :: bool
  session_id :: "string option"
  t_start_iso :: "nat option"
  t_start_epoch :: "rat option"
  reps :: int
  success :: int
  locked_bar_start :: "int option"
  locked_bar_end :: "int option"
  locked_bpm :: "int option"
  selected_song_index :: "int option"
  selected_song_name :: "string option"
  selected_beats_per_bar :: int
  note_var :: string
  metro :: metronome
  sessions_csv :: "SessionRow list"

text \<open>
  How an operation ends when it does not complete: \<open>InvalidInput\<close> is the error box of
  \<^verbatim>\<open>start_session\<close> (a \<^verbatim>\<open>ValueError\<close> of \<^verbatim>\<open>_validate_before_start\<close>), \<open>InvalidState\<close>
  the error box of \<^verbatim>\<open>finish_and_save\<close> on a session without repetitions,
  \<open>PersistenceFailure\<close> an exception of \<^verbatim>\<open>append_csv\<close> leaving \<^verbatim>\<open>finish_and_save\<close>, and
  \<open>PyTypeError\<close> the \<^verbatim>\<open>TypeError\<close> of \<^verbatim>\<open>int(None)\<close> or of a subtraction from \<^verbatim>\<open>None\<close>
  leaving \<^verbatim>\<open>finish_and_save\<close>.
\<close>

datatype error = InvalidInput | InvalidState | PersistenceFailure | PyTypeError

text \<open>
  \<^verbatim>\<open>round(duration, 3)\<close>: the nearest multiple of 1/1000, a tie going to the even one.
\<close>

definition py_round3 :: "rat \<Rightarrow> rat" where
  "py_round3 x =
     (let y = x * 1000; f = \<lfloor>y\<rfloor>; d = y - of_int f in
      of_int (if d < 1 / 2 then f else if 1 / 2 < d then f + 1
              else if even f then f else f + 1) / 1000)"

text \<open>
  \<^verbatim>\<open>_validate_before_start\<close>. The three entry texts arrive as what \<^verbatim>\<open>int(...)\<close> makes of
  them: \<open>None\<close> for an empty text or one that is not an integer (both raise
  \<^verbatim>\<open>ValueError\<close>).
\<close>

definition validate_before_start ::
  "tracker \<Rightarrow> int option \<Rightarrow> int option \<Rightarrow> int option \<Rightarrow> error + (int \<times> int \<times> int)" where
  "validate_before_start t s1 s2 bpm_s =
     (if selected_song_index t = None \<or> selected_song_name t = None
         \<or> selected_song_name t = Some [] then Inl InvalidInput
      else case (s1, s2) of
        (Some bar_start, Some bar_end) \<Rightarrow>
          if bar_start \<le> 0 \<or> bar_end \<le> 0 then Inl InvalidInput
          else if bar_start > bar_end then Inl InvalidInput
          else (case bpm_s of
                  None \<Rightarrow> Inl InvalidInput
                | Some b \<Rightarrow> if b \<le> 0 \<or> b > 400 then Inl InvalidInput
                            else Inr (bar_start, bar_end, b))
      | _ \<Rightarrow> Inl InvalidInput)"

text \<open>
  \<^verbatim>\<open>start_session\<close>. \<open>sid\<close>, \<open>now\<close> and \<open>epoch\<close> are the values of \<^verbatim>\<open>new_session_id()\<close>,
  \<^verbatim>\<open>now_iso()\<close> and \<^verbatim>\<open>time.time()\<close> at the call. The result pairs the error shown, if
  any, with the state the call leaves behind.
\<close>

definition start_session ::
  "tracker \<Rightarrow> string \<Rightarrow> nat \<Rightarrow> rat \<Rightarrow> int option \<Rightarrow> int option \<Rightarrow> int option
     \<Rightarrow> error option \<times> tracker" where
  "start_session t sid now epoch s1 s2 bpm_s =
     (if active t then (None, t)
      else case validate_before_start t s1 s2 bpm_s of
        Inl e \<Rightarrow> (Some e, t)
      | Inr (bar_start, bar_end, b) \<Rightarrow>
          let bpb = (if selected_beats_per_bar t = 0 then 4 else selected_beats_per_bar t) in
          (None,
           t\<lparr>session_id := Some sid, t_start_iso := Some now, t_start_epoch := Some epoch,
             locked_bar_start := Some bar_start, locked_bar_end := Some bar_end,
             locked_bpm := Some b, reps := 0, success := 0, active := True,
             metro := (if is_running (metro t) then update (metro t) b bpb
                       else start (metro t) b bpb)\<rparr>))"

text \<open>The fields that both \<^verbatim>\<open>cancel_session\<close> and \<^verbatim>\<open>finish_and_save\<close> clear at their end.\<close>

definition clear_session :: "tracker \<Rightarrow> tracker" where
  "clear_session t =
     t\<lparr>metro := stop (metro t), session_id := None, t_start_iso := None,
       t_start_epoch := None, locked_bar_start := None, locked_bar_end := None,
       locked_bpm := None, reps := 0, success := 0, active := False\<rparr>"

definition cancel_session :: "tracker \<Rightarrow> tracker" where
  "cancel_session t = (if \<not> active t then t else clear_session t)"

text \<open>
  The construction of the \<^verbatim>\<open>SessionRow\<close> in \<^verbatim>\<open>finish_and_save\<close> (after the success count
  has been clamped), from the state and the two clock readings taken just before.
\<close>

definition make_row :: "tracker \<Rightarrow> nat \<Rightarrow> rat \<Rightarrow> error + SessionRow" where
  "make_row t t_end_iso t_end_epoch =
     (case t_start_epoch t of
        None \<Rightarrow> Inl PyTypeError
      | Some e0 \<Rightarrow>
          (case (selected_song_index t, locked_bar_start t, locked_bar_end t, locked_bpm t) of
             (Some si, Some bs, Some be, Some b) \<Rightarrow>
               Inr \<lparr>sr_session_id = session_id t, sr_timestamp_start = t_start_iso t,
                    sr_timestamp_end = t_end_iso,
                    sr_duration_sec = py_round3 (t_end_epoch - e0),
                    sr_song_index = si,
                    sr_song_name = (case selected_song_name t of None \<Rightarrow> ''None'' | Some n \<Rightarrow> n),
                    sr_bar_start = bs, sr_bar_end = be, sr_bpm = b,
                    sr_reps = reps t, sr_success = success t, sr_note = note_var t\<rparr>
           | _ \<Rightarrow> Inl PyTypeError))"

text \<open>
  \<^verbatim>\<open>append_csv\<close> on \<^verbatim>\<open>sessions.csv\<close>: \<open>io_ok\<close> tells whether the file system lets the
  write through; when it does not, the exception leaves the file as it was.
\<close>

definition append_csv :: "bool \<Rightarrow> SessionRow list \<Rightarrow> SessionRow \<Rightarrow> error + SessionRow list" where
  "append_csv io_ok file row = (if io_ok then Inr (file @ [row]) else Inl PersistenceFailure)"

definition finish_and_save :: "tracker \<Rightarrow> nat \<Rightarrow> rat \<Rightarrow> bool \<Rightarrow> error option \<times> tracker" where
  "finish_and_save t t_end_iso t_end_epoch io_ok =
     (if \<not> active t then (None, t)
      else if reps t \<le> 0 then (Some InvalidState, t)
      else
        let t1 = t\<lparr>success := min (success t) (reps t)\<rparr> in
        case make_row t1 t_end_iso t_end_epoch of
          Inl e \<Rightarrow> (Some e, t1)
        | Inr row \<Rightarrow>
            (case append_csv io_ok (sessions_csv t1) row of
               Inl e \<Rightarrow> (Some e, t1)
             | Inr file \<Rightarrow> (None, clear_session (t1\<lparr>sessions_csv := file\<rparr>))))"

definition add_rep :: "tracker \<Rightarrow> int \<Rightarrow> tracker" where
  "add_rep t delta =
     (if \<not> active t then t
      else let t1 = t\<lparr>reps := max 0 (reps t + delta)\<rparr> in
           if success t1 > reps t1 then t1\<lparr>success := reps t1\<rparr> else t1)"

definition add_success :: "tracker \<Rightarrow> int \<Rightarrow> tracker" where
  "add_success t delta =
     (if \<not> active t then t
      else let t1 = t\<lparr>success := max 0 (success t + delta)\<rparr> in
           if success t1 > reps t1 then t1\<lparr>success := reps t1\<rparr> else t1)"

definition reset_counts :: "tracker \<Rightarrow> tracker" where
  "reset_counts t = (if \<not> active t then t else t\<lparr>reps := 0, success := 0\<rparr>)"

text \<open>
  \<^verbatim>\<open>select_song_by_index\<close> when the index is found in \<^verbatim>\<open>songs.csv\<close>: \<open>name\<close> and \<open>bpb\<close>
  are the name and the beats per bar of the row found, \<open>bpm_s\<close> is what \<^verbatim>\<open>safe_int\<close>
  reads in the tempo entry (\<open>None\<close> when it is not an integer), which
  \<^verbatim>\<open>_sync_preview_if_running\<close> passes on to a running metronome.
\<close>

definition sync_preview_if_running :: "tracker \<Rightarrow> int option \<Rightarrow> tracker" where
  "sync_preview_if_running t bpm_s =
     (if \<not> is_running (metro t) then t
      else let b = (case bpm_s of None \<Rightarrow> 0 | Some v \<Rightarrow> v) in
           if b \<le> 0 then t
           else t\<lparr>metro := update (metro t) b
                    (if selected_beats_per_bar t = 0 then 4 else selected_beats_per_bar t)\<rparr>)"

definition select_song_by_index :: "tracker \<Rightarrow> int \<Rightarrow> string \<Rightarrow> int \<Rightarrow> int option \<Rightarrow> tracker" where
  "select_song_by_index t idx name bpb bpm_s =
     sync_preview_if_running
       (t\<lparr>selected_song_index := Some idx, selected_song_name := Some name,
          selected_beats_per_bar := bpb\<rparr>) bpm_s"

text \<open>
  The calls that touch the session state, with the environment's answers (clock
  readings, entry texts, whether the write goes through) as arguments, and the state
  after a sequence of them.
\<close>

datatype call =
    SelectSong int string int "int option"
  | StartSession string nat rat "int option" "int option" "int option"
  | AddRep int
  | AddSuccess int
  | ResetCounts
  | FinishAndSave nat rat bool
  | CancelSession

fun step :: "tracker \<Rightarrow> call \<Rightarrow> tracker" where
  "step t (SelectSong idx name bpb bpm_s) = select_song_by_index t idx name bpb bpm_s"
| "step t (StartSession sid now epoch s1 s2 bpm_s) =
     snd (start_session t sid now epoch s1 s2 bpm_s)"
| "step t (AddRep d) = add_rep t d"
| "step t (AddSuccess d) = add_success t d"
| "step t ResetCounts = reset_counts t"
| "step t (FinishAndSave now epoch ok) = snd (finish_and_save t now epoch ok)"
| "step t CancelSession = cancel_session t"

definition run :: "tracker \<Rightarrow> call list \<Rightarrow> tracker" where
  "run t cs = foldl step t cs"

text \<open>The attributes as \<^verbatim>\<open>PracticeTracker.__init__\<close> sets them, over a given log file.\<close>

definition init_tracker :: "SessionRow list \<Rightarrow> tracker" where
  "init_tracker file =
     \<lparr>active = False, session_id = None, t_start_iso = None, t_start_epoch = None,
      reps = 0, success = 0, locked_bar_start = None, locked_bar_end = None,
      locked_bpm = None, selected_song_index = None, selected_song_name = None,
      selected_beats_per_bar = 4, note_var = [], metro = init_metronome,
      sessions_csv = file\<rparr>"

section \<open>BeepMetronome: the cadence loop\<close>













section \<open>The tempo suggestion\<close>

text \<open>\<^verbatim>\<open>PracticeTracker._compute_suggestion\<close> (section_practice.py, lines 694 to 806).\<close>

text \<open>
  A row of the sessions cache is a dictionary of texts. The suggestion reads its cells
  only through \<^verbatim>\<open>safe_int\<close> and \<^verbatim>\<open>parse_timestamp\<close>, so a row is represented by the
  outcome of the conversion of each cell: for the integer cells, \<open>Some v\<close> when
  \<^verbatim>\<open>int(str(x).strip())\<close> gives \<open>v\<close> and \<open>None\<close> when it raises (a missing cell included);
  for \<^verbatim>\<open>timestamp_start\<close>, \<open>Some s\<close> when one of the two formats parses (\<open>s\<close> counts the
  seconds from \<^verbatim>\<open>datetime.min\<close>, so the order of stamps is the order of the numbers) and
  \<open>None\<close> when \<^verbatim>\<open>parse_timestamp\<close> returns \<^verbatim>\<open>None\<close>.
\<close>

record csv_row =
  d_song_index :: "int option"
  d_bar_start :: "int option"
  d_bar_end :: "int option"
  d_bpm :: "int option"
  d_reps :: "int option"
  d_success :: "int option"
  d_timestamp_start :: "nat option"

definition safe_int :: "int option \<Rightarrow> int \<Rightarrow> int" where
  "safe_int x dflt = (case x of Some v \<Rightarrow> v | None \<Rightarrow> dflt)"


text \<open>
  The quotient \<^verbatim>\<open>succ / reps\<close> and the threshold are exact rationals here. Python holds
  both as binary floating-point numbers; the comparison of the two comes out the same
  as long as \<^verbatim>\<open>reps\<close> stays below \<open>10^15\<close>. (A quotient too large for a floating-point
  number, which takes a success count of more than 300 digits, makes Python raise; that
  case is left out.)
\<close>

definition SUCCESS_THRESHOLD :: rat where
  "SUCCESS_THRESHOLD = 9 / 10"



text \<open>One pass of the inner loop over \<^verbatim>\<open>rows\<close> for a bar: the new \<^verbatim>\<open>best_min_bpm\<close>.\<close>

definition best_step :: "int \<Rightarrow> int option \<Rightarrow> csv_row \<Rightarrow> int option" where
  "best_step bar best_min_bpm r =
     (let bs0 = safe_int (d_bar_start r) 0; be0 = safe_int (d_bar_end r) 0;
          bs = (if bs0 > be0 then be0 else bs0); be = (if bs0 > be0 then bs0 else be0) in
      if \<not> (bs \<le> bar \<and> bar \<le> be) then best_min_bpm
      else
        let reps = safe_int (d_reps r) 0; succ = safe_int (d_success r) 0 in
        if reps \<le> 0 then best_min_bpm
        else
          let acc = (of_int succ :: rat) / of_int reps; b = safe_int (d_bpm r) 0 in
          if b \<le> 0 then best_min_bpm
          else if acc \<ge> SUCCESS_THRESHOLD then
            (case best_min_bpm of
               None \<Rightarrow> Some b
             | Some m \<Rightarrow> if b < m then Some b else Some m)
          else best_min_bpm)"

definition best_min_bpm :: "csv_row list \<Rightarrow> int \<Rightarrow> int option" where
  "best_min_bpm rows bar = foldl (best_step bar) None rows"













section \<open>The notions the suggestion rule is stated in\<close>







section \<open>Sample data\<close>

text \<open>
  A short session: a song is picked, a session on bars 1 to 8 at tempo 100 is started at
  second 100, two repetitions and one success are counted.
\<close>

definition demo_calls :: "call list" where
  "demo_calls =
     [SelectSong 1 ''Etude'' 4 None,
      StartSession ''20240101_100000'' 100 100 (Some 1) (Some 8) (Some 100),
      AddRep 2, AddSuccess 1]"

text \<open>The row this session yields when it is finished at second 160.\<close>

definition demo_row :: SessionRow where
  "demo_row =
     \<lparr>sr_session_id = Some ''20240101_100000'', sr_timestamp_start = Some 100,
      sr_timestamp_end = 160, sr_duration_sec = 60, sr_song_index = 1,
      sr_song_name = ''Etude'', sr_bar_start = 1, sr_bar_end = 8, sr_bpm = 100,
      sr_reps = 2, sr_success = 1, sr_note = []\<rparr>"



section \<open>Properties of the metronome parameters\<close>

text \<open>
  C10. After \<open>update\<close>, and after \<open>start\<close> (which calls \<open>update\<close> first), the stored tempo
  lies in [1,400] and the stored beats per bar in [1,32], whatever integers were passed:
  arguments out of range are clamped, never rejected.
\<close>

theorem update_start_params_in_range:
  "1 \<le> bpm (update m b bb) \<and> bpm (update m b bb) \<le> 400 \<and>
   1 \<le> beats_per_bar (update m b bb) \<and> beats_per_bar (update m b bb) \<le> 32 \<and>
   1 \<le> bpm (start m b bb) \<and> bpm (start m b bb) \<le> 400 \<and>
   1 \<le> beats_per_bar (start m b bb) \<and> beats_per_bar (start m b bb) \<le> 32 \<and>
   bpm (update m b bb) = (if b < 1 then 1 else if 400 < b then 400 else b) \<and>
   beats_per_bar (update m b bb) = (if bb < 1 then 1 else if 32 < bb then 32 else bb)"
  by (simp add: update_def start_def Let_def is_running_def)

theorem update_start_params_in_range_witness:
  "bpm (update init_metronome 1000 (-5)) = 400 \<and>
   beats_per_bar (update init_metronome 1000 (-5)) = 1 \<and>
   bpm (start init_metronome 0 99) = 1 \<and>
   beats_per_bar (start init_metronome 0 99) = 32"
  using update_start_params_in_range [of init_metronome 1000 "-5"]
        update_start_params_in_range [of init_metronome 0 99]
  by (simp add: update_def start_def Let_def is_running_def init_metronome_def)

text \<open>
  C3 (as the code has it). \<open>start\<close> on a metronome whose thread is alive starts no second
  thread and leaves the stop event alone, but it is not a no-op: \<open>update\<close> runs before
  the running test, so the tempo and the beats per bar become the (clamped) arguments.
\<close>

theorem start_when_running_applies_update:
  "is_running m \<Longrightarrow>
   start m b bb = update m b bb \<and>
   bpm (start m b bb) = max 1 (min 400 b) \<and>
   beats_per_bar (start m b bb) = max 1 (min 32 bb) \<and>
   stop_set (start m b bb) = stop_set m \<and>
   thread_alive (start m b bb) = thread_alive m"
  by (simp add: start_def update_def is_running_def Let_def)

theorem start_when_running_applies_update_witness:
  "is_running \<lparr>bpm = 120, beats_per_bar = 4, stop_set = False, thread_alive = True\<rparr> \<and>
   start \<lparr>bpm = 120, beats_per_bar = 4, stop_set = False, thread_alive = True\<rparr> 60 3
     = \<lparr>bpm = 60, beats_per_bar = 3, stop_set = False, thread_alive = True\<rparr>"
  using start_when_running_applies_update
    [of "\<lparr>bpm = 120, beats_per_bar = 4, stop_set = False, thread_alive = True\<rparr>" 60 3]
  by (simp add: is_running_def update_def)

text \<open>
  C3 (as the spec states it) fails: a metronome running at 120 with 4 beats per bar, on
  \<open>start 60 3\<close>, runs on at 60 with 3 beats per bar.
\<close>

theorem start_when_running_counterexample:
  "is_running \<lparr>bpm = 120, beats_per_bar = 4, stop_set = False, thread_alive = True\<rparr> \<and>
   bpm (start \<lparr>bpm = 120, beats_per_bar = 4, stop_set = False, thread_alive = True\<rparr> 60 3)
     \<noteq> bpm \<lparr>bpm = 120, beats_per_bar = 4, stop_set = False, thread_alive = True\<rparr> \<and>
   beats_per_bar (start \<lparr>bpm = 120, beats_per_bar = 4, stop_set = False, thread_alive = True\<rparr> 60 3)
     \<noteq> beats_per_bar \<lparr>bpm = 120, beats_per_bar = 4, stop_set = False, thread_alive = True\<rparr>"
  by (simp add: start_def update_def is_running_def Let_def)

section \<open>Properties of the cadence loop\<close>










section \<open>Properties of the session counters and of the log\<close>

lemmas tracker_defs =
  run_def init_tracker_def init_metronome_def select_song_by_index_def
  sync_preview_if_running_def start_session_def validate_before_start_def
  add_rep_def add_success_def reset_counts_def cancel_session_def clear_session_def
  finish_and_save_def make_row_def append_csv_def is_running_def start_def update_def
  stop_def Let_def

text \<open>Every call keeps \<open>0 \<le> success \<le> reps\<close>.\<close>

lemma counters_step:
  "0 \<le> success t \<and> success t \<le> reps t \<Longrightarrow>
   0 \<le> success (step t c) \<and> success (step t c) \<le> reps (step t c)"
  by (cases c)
     (auto simp: add_rep_def add_success_def reset_counts_def cancel_session_def
        clear_session_def finish_and_save_def start_session_def Let_def
        select_song_by_index_def sync_preview_if_running_def
        split: sum.splits prod.splits option.splits)

lemma counters_run:
  "0 \<le> success t \<and> success t \<le> reps t \<Longrightarrow>
   0 \<le> success (run t cs) \<and> success (run t cs) \<le> reps (run t cs)"
  unfolding run_def
proof (induction cs arbitrary: t)
  case Nil
  then show ?case by simp
next
  case (Cons c cs)
  have "0 \<le> success (step t c) \<and> success (step t c) \<le> reps (step t c)"
    using Cons.prems by (rule counters_step)
  then show ?case using Cons.IH by simp
qed

text \<open>A call leaves the log as it is or appends one row, whose \<open>reps\<close> is positive.\<close>

lemma appended_step:
  "sessions_csv (step t c) = sessions_csv t \<or>
   (\<exists>r. sessions_csv (step t c) = sessions_csv t @ [r] \<and> 0 < sr_reps r)"
  by (cases c)
     (auto simp: add_rep_def add_success_def reset_counts_def cancel_session_def
        clear_session_def finish_and_save_def start_session_def Let_def
        select_song_by_index_def sync_preview_if_running_def make_row_def append_csv_def
        split: sum.splits prod.splits option.splits if_splits)

lemma appended_run:
  "take (length (sessions_csv t)) (sessions_csv (run t cs)) = sessions_csv t \<and>
   (\<forall>r \<in> set (drop (length (sessions_csv t)) (sessions_csv (run t cs))). 0 < sr_reps r)"
  unfolding run_def
proof (induction cs arbitrary: t)
  case Nil
  then show ?case by simp
next
  case (Cons c cs)
  let ?u = "step t c"
  let ?f = "sessions_csv (foldl step ?u cs)"
  have ih: "take (length (sessions_csv ?u)) ?f = sessions_csv ?u"
    and ih2: "\<forall>r \<in> set (drop (length (sessions_csv ?u)) ?f). 0 < sr_reps r"
    using Cons.IH [of ?u] by simp_all
  have f: "?f = sessions_csv ?u @ drop (length (sessions_csv ?u)) ?f"
    using ih by (metis append_take_drop_id)
  consider (same) "sessions_csv ?u = sessions_csv t"
    | (more) r where "sessions_csv ?u = sessions_csv t @ [r]" "0 < sr_reps r"
    using appended_step [of t c] by blast
  then show ?case
  proof cases
    case same
    then show ?thesis using ih ih2 by simp
  next
    case more
    have g: "?f = sessions_csv t @ r # drop (length (sessions_csv ?u)) ?f"
      using f more(1) by simp
    have "take (length (sessions_csv t)) ?f = sessions_csv t"
      by (subst g) simp
    moreover have "drop (length (sessions_csv t)) ?f = r # drop (length (sessions_csv ?u)) ?f"
      by (subst g) simp
    ultimately show ?thesis using ih2 more(2) by simp
  qed
qed

text \<open>
  C7. In every state reached from the initial one by any calls, \<open>0 \<le> success \<le> reps\<close>;
  so it holds after each \<open>add_rep\<close> and each \<open>add_success\<close>, for any integer delta. When
  a session is active and \<open>success + d\<close> reaches or passes \<open>reps\<close>, \<open>add_success d\<close> leaves
  \<open>success = reps\<close>.
\<close>

theorem counters_bounded:
  "0 \<le> success (run (init_tracker file) cs) \<and>
   success (run (init_tracker file) cs) \<le> reps (run (init_tracker file) cs) \<and>
   0 \<le> success (add_rep (run (init_tracker file) cs) d) \<and>
   success (add_rep (run (init_tracker file) cs) d) \<le> reps (add_rep (run (init_tracker file) cs) d) \<and>
   0 \<le> success (add_success (run (init_tracker file) cs) d) \<and>
   success (add_success (run (init_tracker file) cs) d)
     \<le> reps (add_success (run (init_tracker file) cs) d) \<and>
   (active (run (init_tracker file) cs) \<and>
    reps (run (init_tracker file) cs) \<le> success (run (init_tracker file) cs) + d \<longrightarrow>
    success (add_success (run (init_tracker file) cs) d) = reps (run (init_tracker file) cs))"
proof -
  let ?s = "run (init_tracker file) cs"
  have i: "0 \<le> success ?s \<and> success ?s \<le> reps ?s"
    by (rule counters_run) (simp add: init_tracker_def)
  have r: "0 \<le> success (step ?s (AddRep d)) \<and> success (step ?s (AddRep d)) \<le> reps (step ?s (AddRep d))"
    using i by (rule counters_step)
  have a: "0 \<le> success (step ?s (AddSuccess d)) \<and>
           success (step ?s (AddSuccess d)) \<le> reps (step ?s (AddSuccess d))"
    using i by (rule counters_step)
  have c: "active ?s \<and> reps ?s \<le> success ?s + d \<longrightarrow> success (add_success ?s d) = reps ?s"
    using i by (auto simp: add_success_def Let_def)
  show ?thesis using i r a c by simp
qed

theorem counters_bounded_witness:
  "active (run (init_tracker []) demo_calls) \<and>
   reps (run (init_tracker []) demo_calls) \<le> success (run (init_tracker []) demo_calls) + 5 \<and>
   reps (run (init_tracker []) demo_calls) = 2 \<and>
   success (add_success (run (init_tracker []) demo_calls) 5) = 2"
  using counters_bounded [of "[]" demo_calls 5]
  by (simp add: demo_calls_def tracker_defs)

text \<open>
  C6. Whatever calls are made, the log only grows at its end and every row added has
  \<open>reps > 0\<close>; \<open>finish_and_save\<close> on an active session with \<open>reps = 0\<close> ends with
  \<open>InvalidState\<close> and changes nothing; \<open>cancel_session\<close>, after any calls, leaves the log
  as it was.
\<close>

theorem persisted_rows_have_reps:
  "take (length (sessions_csv t)) (sessions_csv (run t cs)) = sessions_csv t \<and>
   (\<forall>r \<in> set (drop (length (sessions_csv t)) (sessions_csv (run t cs))). 0 < sr_reps r) \<and>
   (active t \<and> reps t = 0 \<longrightarrow> finish_and_save t now epoch ok = (Some InvalidState, t)) \<and>
   sessions_csv (cancel_session (run t cs)) = sessions_csv (run t cs)"
proof -
  have "sessions_csv (cancel_session (run t cs)) = sessions_csv (run t cs)"
    by (simp add: cancel_session_def clear_session_def)
  moreover have "active t \<and> reps t = 0 \<longrightarrow> finish_and_save t now epoch ok = (Some InvalidState, t)"
    by (simp add: finish_and_save_def)
  ultimately show ?thesis using appended_run [of t cs] by simp
qed

theorem persisted_rows_have_reps_witness:
  "sessions_csv (run (init_tracker []) (demo_calls @ [FinishAndSave 160 (321 / 2) True]))
     = [\<lparr>sr_session_id = Some ''20240101_100000'', sr_timestamp_start = Some 100,
         sr_timestamp_end = 160, sr_duration_sec = 121 / 2, sr_song_index = 1,
         sr_song_name = ''Etude'', sr_bar_start = 1, sr_bar_end = 8, sr_bpm = 100,
         sr_reps = 2, sr_success = 1, sr_note = []\<rparr>] \<and>
   active (run (init_tracker []) (take 2 demo_calls)) \<and>
   reps (run (init_tracker []) (take 2 demo_calls)) = 0 \<and>
   finish_and_save (run (init_tracker []) (take 2 demo_calls)) 160 161 True
     = (Some InvalidState, run (init_tracker []) (take 2 demo_calls))"
  using persisted_rows_have_reps
          [of "init_tracker []" "demo_calls @ [FinishAndSave 160 (321 / 2) True]" 160 161 True]
        persisted_rows_have_reps
          [of "run (init_tracker []) (take 2 demo_calls)" "[]" 160 161 True]
  by (simp add: demo_calls_def tracker_defs py_round3_def)

text \<open>
  C5 (as the code has it). When the append fails, \<open>finish_and_save\<close> ends with
  \<open>PersistenceFailure\<close>; the session stays active, with its locked parameters and its
  counters (the success count clamped to \<open>reps\<close>), and the log is unchanged. No field holds
  the row that was built: a second \<open>finish_and_save\<close> builds it again from the session
  state, so the row it appends has the end stamp and the duration of the second call and
  agrees with the first row in every other field.
\<close>

theorem failed_append_keeps_session:
  assumes "active t" and "0 < reps t"
    and "make_row (t\<lparr>success := min (success t) (reps t)\<rparr>) now epoch = Inr row"
  shows "finish_and_save t now epoch False
           = (Some PersistenceFailure, t\<lparr>success := min (success t) (reps t)\<rparr>) \<and>
         finish_and_save (snd (finish_and_save t now epoch False)) now2 epoch2 True
           = (None,
              clear_session
                (t\<lparr>success := min (success t) (reps t),
                   sessions_csv := sessions_csv t @
                     [row\<lparr>sr_timestamp_end := now2,
                          sr_duration_sec := py_round3 (epoch2 - the (t_start_epoch t))\<rparr>]\<rparr>))"
proof -
  let ?t1 = "t\<lparr>success := min (success t) (reps t)\<rparr>"
  have first: "finish_and_save t now epoch False = (Some PersistenceFailure, ?t1)"
    using assms by (simp add: finish_and_save_def Let_def append_csv_def)
  have row2: "make_row ?t1 now2 epoch2
                = Inr (row\<lparr>sr_timestamp_end := now2,
                           sr_duration_sec := py_round3 (epoch2 - the (t_start_epoch t))\<rparr>)"
    using assms(3) by (auto simp: make_row_def split: option.splits)
  have "finish_and_save ?t1 now2 epoch2 True
          = (None, clear_session (?t1\<lparr>sessions_csv := sessions_csv t @
               [row\<lparr>sr_timestamp_end := now2,
                    sr_duration_sec := py_round3 (epoch2 - the (t_start_epoch t))\<rparr>]\<rparr>))"
    using assms(1,2) row2 by (simp add: finish_and_save_def Let_def append_csv_def)
  then show ?thesis using first by simp
qed

theorem failed_append_keeps_session_witness:
  "active (run (init_tracker []) demo_calls) \<and> 0 < reps (run (init_tracker []) demo_calls) \<and>
   make_row (run (init_tracker []) demo_calls) 160 160 = Inr demo_row \<and>
   fst (finish_and_save (run (init_tracker []) demo_calls) 160 160 False)
     = Some PersistenceFailure \<and>
   sessions_csv (snd (finish_and_save
       (snd (finish_and_save (run (init_tracker []) demo_calls) 160 160 False)) 190 190 True))
     = [demo_row\<lparr>sr_timestamp_end := 190, sr_duration_sec := 90\<rparr>]"
proof -
  let ?t = "run (init_tracker []) demo_calls"
  have a: "active ?t" and r: "0 < reps ?t"
    by (simp_all add: demo_calls_def tracker_defs)
  have m: "make_row (?t\<lparr>success := min (success ?t) (reps ?t)\<rparr>) 160 160 = Inr demo_row"
    by (simp add: demo_calls_def tracker_defs demo_row_def py_round3_def)
  have m': "make_row ?t 160 160 = Inr demo_row"
    by (simp add: demo_calls_def tracker_defs demo_row_def py_round3_def)
  have e: "the (t_start_epoch ?t) = 100" "sessions_csv ?t = []"
    by (simp_all add: demo_calls_def tracker_defs)
  have p: "py_round3 90 = 90"
    by (simp add: py_round3_def)
  note th = failed_append_keeps_session [OF a r m, of 190 190]
  have f1: "fst (finish_and_save ?t 160 160 False) = Some PersistenceFailure"
    using th by simp
  have "sessions_csv (snd (finish_and_save (snd (finish_and_save ?t 160 160 False)) 190 190 True))
          = [demo_row\<lparr>sr_timestamp_end := 190, sr_duration_sec := 90\<rparr>]"
    by (subst conjunct2 [OF th]) (simp add: clear_session_def e p)
  then show ?thesis using a r m' f1 by simp
qed

text \<open>
  C5 (as the spec states it) fails: the append of the row built at second 160 fails, the
  retry at second 190 succeeds, and the row in the log is not the row built at second 160.
\<close>

theorem failed_append_counterexample:
  "fst (finish_and_save (run (init_tracker []) demo_calls) 160 160 False)
     = Some PersistenceFailure \<and>
   make_row (snd (finish_and_save (run (init_tracker []) demo_calls) 160 160 False)) 160 160
     = Inr demo_row \<and>
   sessions_csv (snd (finish_and_save
       (snd (finish_and_save (run (init_tracker []) demo_calls) 160 160 False)) 190 190 True))
     \<noteq> [demo_row]"
  by (simp add: demo_calls_def tracker_defs demo_row_def py_round3_def)


section \<open>Properties of the tempo suggestion\<close>


subsection \<open>The rows considered\<close>






subsection \<open>The achieved tempo of a bar\<close>














subsection \<open>The fallback on the most recent rows\<close>








subsection \<open>The claims\<close>









end
